theory Spec2Isabelle
  imports Main "HOL-Library.Word"
begin

section \<open>JavaScript strings\<close>

text \<open>
  A JavaScript string is a sequence of UTF-16 code units. The functions below are the
  string methods the two scrapers call: \<^verbatim>\<open>trim\<close>, \<^verbatim>\<open>indexOf\<close>,
  \<^verbatim>\<open>split\<close>, \<^verbatim>\<open>replace\<close> (with a string pattern) and \<^verbatim>\<open>join\<close>.
\<close>

type_synonym jsstring = "16 word list"

text \<open>An ASCII literal as a JavaScript string.\<close>

definition ascii :: "string \<Rightarrow> jsstring" where
  "ascii s = map (\<lambda>c. of_char c) s"

text \<open>
  The code units \<^verbatim>\<open>trim\<close> strips: ECMAScript's WhiteSpace (tab, VT, FF, space,
  no-break space, the byte order mark and the space separators of Unicode) and
  LineTerminator (LF, CR, LS, PS).
\<close>

definition isWhiteSpace :: "16 word \<Rightarrow> bool" where
  "isWhiteSpace c = (c \<in> set [0x9, 0xA, 0xB, 0xC, 0xD, 0x20, 0xA0, 0x1680,
      0x2000, 0x2001, 0x2002, 0x2003, 0x2004, 0x2005, 0x2006, 0x2007, 0x2008, 0x2009, 0x200A,
      0x2028, 0x2029, 0x202F, 0x205F, 0x3000, 0xFEFF])"

definition js_trim :: "jsstring \<Rightarrow> jsstring" where
  "js_trim s = rev (dropWhile isWhiteSpace (rev (dropWhile isWhiteSpace s)))"

text \<open>\<^verbatim>\<open>s.indexOf(sep)\<close>: the least position where \<open>sep\<close> occurs, \<open>None\<close> for -1.\<close>

fun js_indexOf :: "'a list \<Rightarrow> 'a list \<Rightarrow> nat option" where
  "js_indexOf [] sep = (if sep = [] then Some 0 else None)"
| "js_indexOf (c # cs) sep =
     (if take (length sep) (c # cs) = sep then Some 0 else map_option Suc (js_indexOf cs sep))"

lemma js_indexOf_bound: "js_indexOf s sep = Some j \<Longrightarrow> j + length sep \<le> length s"
proof (induction s arbitrary: j)
  case Nil
  then show ?case by (simp split: if_splits)
next
  case (Cons c cs)
  show ?case
  proof (cases "take (length sep) (c # cs) = sep")
    case True
    then have "length (take (length sep) (c # cs)) = length sep" by simp
    then have "length sep \<le> length (c # cs)" by simp
    with True Cons.prems show ?thesis by simp
  next
    case False
    with Cons.prems obtain k where "js_indexOf cs sep = Some k" "j = Suc k" by auto
    with Cons.IH show ?thesis by fastforce
  qed
qed

text \<open>
  \<^verbatim>\<open>s.split(sep)\<close> with a string separator and no limit: an empty separator gives
  the code units one by one; otherwise the string is cut at each occurrence found by
  searching on from the end of the previous one.
\<close>

function js_split :: "'a list \<Rightarrow> 'a list \<Rightarrow> 'a list list" where
  "js_split s sep =
     (if sep = [] then map (\<lambda>c. [c]) s
      else (case js_indexOf s sep of
              None \<Rightarrow> [s]
            | Some j \<Rightarrow> take j s # js_split (drop (j + length sep) s) sep))"
  by pat_completeness auto
termination
proof (relation "measure (\<lambda>(s, sep). length s)")
  show "wf (measure (\<lambda>(s, sep). length s))" by simp
next
  fix s sep :: "'a list" and j
  assume "sep \<noteq> []" "js_indexOf s sep = Some j"
  then have "j + length sep \<le> length s" "0 < length sep"
    using js_indexOf_bound by auto
  then have "length s - (j + length sep) < length s" by arith
  then show "((drop (j + length sep) s, sep), (s, sep)) \<in> measure (\<lambda>(s, sep). length s)"
    by simp
qed

declare js_split.simps [simp del]

text \<open>
  \<^verbatim>\<open>s.replace(pat, rep)\<close> with a string pattern replaces the first occurrence only.
  The scrapers always pass the empty replacement, so the dollar patterns of a
  replacement string play no part.
\<close>

definition js_replace :: "'a list \<Rightarrow> 'a list \<Rightarrow> 'a list \<Rightarrow> 'a list" where
  "js_replace s pat rep =
     (case js_indexOf s pat of
        None \<Rightarrow> s
      | Some i \<Rightarrow> take i s @ rep @ drop (i + length pat) s)"

fun js_join :: "'a list list \<Rightarrow> 'a list \<Rightarrow> 'a list" where
  "js_join [] sep = []"
| "js_join [x] sep = x"
| "js_join (x # y # ys) sep = x @ sep @ js_join (y # ys) sep"

text \<open>The delimiter \<^verbatim>\<open>' \<close>U+00B7\<^verbatim>\<open> '\<close>: space, middle dot, space.\<close>

definition DELIM :: jsstring where
  "DELIM = [0x20, 0xB7, 0x20]"

text \<open>The separator \<^verbatim>\<open>" > "\<close> of the selector surgery.\<close>

definition CHILD_SEP :: jsstring where
  "CHILD_SEP = [0x20, 0x3E, 0x20]"


section \<open>The page as the scrapers see it\<close>

text \<open>
  The scrapers reach the page through Puppeteer only: \<^verbatim>\<open>page.$$(sel)\<close>,
  \<^verbatim>\<open>item.$(sel)\<close>, \<^verbatim>\<open>item.$$(sel)\<close> and \<^verbatim>\<open>page.evaluate(f, el)\<close>. Each of
  these awaits a promise that may reject, so each is a function into a sum: \<open>Inl\<close> is
  the thrown error, \<open>Inr\<close> the value.

  An element handle is what \<^verbatim>\<open>page.evaluate\<close> reads from it: the evaluation
  rejects, or it yields the element's \<^verbatim>\<open>textContent\<close> (\<open>None\<close> for null).
  An item answers selector queries, and carries the chain of its
  \<^verbatim>\<open>parentElement\<close>s, nearest first, each as its \<^verbatim>\<open>matches\<close> method;
  \<open>Inl\<close> there is a rejected \<^verbatim>\<open>page.evaluate\<close>.
\<close>

datatype js_error = JsError string

type_synonym selector = jsstring

type_synonym elem = "js_error + jsstring option"

record item =
  query_one :: "selector \<Rightarrow> js_error + elem option"
  query_all :: "selector \<Rightarrow> js_error + elem list"
  parent_chain :: "js_error + (selector \<Rightarrow> js_error + bool) list"

type_synonym page = "selector \<Rightarrow> js_error + item list"

text \<open>
  Reading \<^verbatim>\<open>.trim\<close> of a null \<^verbatim>\<open>textContent\<close> throws in the page. The
  scraper catches this error wherever it can arise and only logs it, so its message,
  abridged here, reaches no result.
\<close>

definition nullTextContent :: js_error where
  "nullTextContent = JsError ''TypeError: Cannot read properties of null (reading trim)''"


section \<open>scraper.js\<close>

subsection \<open>Records and configuration\<close>

text \<open>
  \<^verbatim>\<open>experienceData\<close> is a plain object that the code creates with nine keys and
  then assigns to; it is a map from key to value, and an assignment
  \<^verbatim>\<open>experienceData.k = v\<close> is a map update.
\<close>

datatype jsval = JNull | JStr jsstring | JNum nat | JBool bool

type_synonym obj = "string \<rightharpoonup> jsval"

record selectors =
  experienceItem :: selector
  role :: selector
  companyAndDetails :: selector
  skills_and_description :: selector

text \<open>
  \<^verbatim>\<open>config.json\<close> as parsed: \<open>config_selectors\<close> is \<open>None\<close> when the key
  \<^verbatim>\<open>selectors\<close> is missing. The argument \<^verbatim>\<open>config\<close> of a function is null,
  undefined or such an object.
\<close>

record config =
  config_selectors :: "selectors option"

datatype config_arg = ConfigNull | ConfigUndefined | ConfigObject config

text \<open>
  The \<^verbatim>\<open>message\<close> of the TypeError that Node (V8) throws for
  \<^verbatim>\<open>config.selectors\<close> when \<^verbatim>\<open>config\<close> is null and when it is undefined; the
  property name stands between apostrophes (\<open>CHR 0x27\<close>).
\<close>

definition selectorsOfNull :: js_error where
  "selectorsOfNull =
     JsError (''Cannot read properties of null (reading '' @ [CHR 0x27]
              @ ''selectors'' @ [CHR 0x27] @ '')'')"

definition selectorsOfUndefined :: js_error where
  "selectorsOfUndefined =
     JsError (''Cannot read properties of undefined (reading '' @ [CHR 0x27]
              @ ''selectors'' @ [CHR 0x27] @ '')'')"

text \<open>Lines 65-75: the object every iteration starts from.\<close>

definition new_experienceData :: "nat \<Rightarrow> obj" where
  "new_experienceData idx =
     [''index'' \<mapsto> JNum idx,
      ''role'' \<mapsto> JNull,
      ''company'' \<mapsto> JNull,
      ''position'' \<mapsto> JNull,
      ''duration'' \<mapsto> JNull,
      ''location'' \<mapsto> JNull,
      ''description'' \<mapsto> JNull,
      ''skills'' \<mapsto> JNull,
      ''has_children'' \<mapsto> JBool False]"

text \<open>The nine keys of that object, and the seven whose value is a text or null.\<close>

definition experience_keys :: "string set" where
  "experience_keys = {''index'', ''role'', ''company'', ''position'', ''duration'',
      ''location'', ''description'', ''skills'', ''has_children''}"

definition text_keys :: "string set" where
  "text_keys = {''role'', ''company'', ''position'', ''duration'', ''location'',
      ''description'', ''skills''}"

text \<open>
  What holds of \<^verbatim>\<open>experienceData\<close> from its creation to its push: the nine keys,
  the index of the item, \<^verbatim>\<open>has_children\<close> false, and a text or null under each of
  the other keys.
\<close>

definition record_shape :: "nat \<Rightarrow> obj \<Rightarrow> bool" where
  "record_shape idx r =
    (dom r = experience_keys \<and> r ''index'' = Some (JNum idx)
     \<and> r ''has_children'' = Some (JBool False)
     \<and> (\<forall>k\<in>text_keys. r k = Some JNull \<or> (\<exists>s. r k = Some (JStr s))))"

subsection \<open>The steps of one item\<close>

text \<open>\<^verbatim>\<open>page.evaluate((el) => el.textContent.trim(), el)\<close>.\<close>

definition textContentTrim :: "elem \<Rightarrow> js_error + jsstring" where
  "textContentTrim el =
     (case el of
        Inl e \<Rightarrow> Inl e
      | Inr None \<Rightarrow> Inl nullTextContent
      | Inr (Some t) \<Rightarrow> Inr (js_trim t))"

text \<open>
  Lines 87-96, the role: a failure is caught and logged, and leaves the object as it
  is.
\<close>

definition getRole :: "selectors \<Rightarrow> item \<Rightarrow> obj \<Rightarrow> obj" where
  "getRole sels it experienceData =
     (case query_one it (role sels) of
        Inl e \<Rightarrow> experienceData
      | Inr None \<Rightarrow> experienceData
      | Inr (Some roleElem) \<Rightarrow>
          (case textContentTrim roleElem of
             Inl e \<Rightarrow> experienceData
           | Inr roleText \<Rightarrow> experienceData(''role'' \<mapsto> JStr roleText)))"

text \<open>
  Lines 103-108 and 143-148: the loop that reads the text of each matched element
  and pushes it when it is truthy, that is, not the empty string.
\<close>

fun collectTexts :: "elem list \<Rightarrow> jsstring list \<Rightarrow> js_error + jsstring list" where
  "collectTexts [] acc = Inr acc"
| "collectTexts (el # els) acc =
     (case textContentTrim el of
        Inl e \<Rightarrow> Inl e
      | Inr txt \<Rightarrow> collectTexts els (if txt \<noteq> [] then acc @ [txt] else acc))"

text \<open>Lines 112-133: company, position, duration and location by position.\<close>

definition assignCompany :: "jsstring \<Rightarrow> obj \<Rightarrow> obj" where
  "assignCompany companyInfo experienceData =
     (let parts = js_split companyInfo DELIM in
      if length parts \<ge> 2
      then experienceData(''company'' \<mapsto> JStr (js_trim (parts ! 0)),
                          ''position'' \<mapsto> JStr (js_trim (parts ! 1)))
      else experienceData(''company'' \<mapsto> JStr companyInfo, ''position'' \<mapsto> JNull))"

definition assignDetails :: "jsstring list \<Rightarrow> obj \<Rightarrow> obj" where
  "assignDetails detailsText experienceData =
     (let d1 = (if length detailsText \<ge> 1
                then assignCompany (detailsText ! 0) experienceData else experienceData);
          d2 = (if length detailsText \<ge> 2
                then d1(''duration'' \<mapsto> JStr (detailsText ! 1)) else d1)
      in if length detailsText \<ge> 3
         then d2(''location'' \<mapsto> JStr (detailsText ! 2)) else d2)"

text \<open>Lines 99-136: a failure while collecting is caught before anything is assigned.\<close>

definition getDetails :: "selectors \<Rightarrow> item \<Rightarrow> obj \<Rightarrow> obj" where
  "getDetails sels it experienceData =
     (case query_all it (companyAndDetails sels) of
        Inl e \<Rightarrow> experienceData
      | Inr detailElems \<Rightarrow>
          (case collectTexts detailElems [] of
             Inl e \<Rightarrow> experienceData
           | Inr detailsText \<Rightarrow> assignDetails detailsText experienceData))"

text \<open>Lines 152-166: description and skills by the number of fragments.\<close>

definition assignDescriptionSkills :: "jsstring list \<Rightarrow> obj \<Rightarrow> obj" where
  "assignDescriptionSkills skillDescText experienceData =
     (if length skillDescText = 0
      then experienceData(''description'' \<mapsto> JNull, ''skills'' \<mapsto> JNull)
      else if length skillDescText = 1
      then experienceData(''description'' \<mapsto> JNull,
                          ''skills'' \<mapsto> JStr (skillDescText ! 0))
      else experienceData(''description'' \<mapsto> JStr (skillDescText ! 0),
                          ''skills'' \<mapsto> JStr (skillDescText ! (length skillDescText - 1))))"

definition getDescriptionSkills :: "selectors \<Rightarrow> item \<Rightarrow> obj \<Rightarrow> obj" where
  "getDescriptionSkills sels it experienceData =
     (case query_all it (skills_and_description sels) of
        Inl e \<Rightarrow> experienceData
      | Inr skillDescElems \<Rightarrow>
          (case collectTexts skillDescElems [] of
             Inl e \<Rightarrow> experienceData
           | Inr skillDescText \<Rightarrow> assignDescriptionSkills skillDescText experienceData))"

text \<open>
  Lines 64-175, the body of the loop for one item: the records it pushes. When the
  query for children throws, the outer catch pushes the object as created; with more
  than one child the item is skipped by \<^verbatim>\<open>continue\<close>; otherwise the three guarded
  steps run and the object is pushed.
\<close>

definition processItem :: "selectors \<Rightarrow> nat \<Rightarrow> item \<Rightarrow> obj list" where
  "processItem sels idx it =
     (let experienceData = new_experienceData idx in
      case query_all it (experienceItem sels) of
        Inl e \<Rightarrow> [experienceData]
      | Inr children \<Rightarrow>
          if length children > 1 then []
          else [getDescriptionSkills sels it
                  (getDetails sels it (getRole sels it experienceData))])"

subsection \<open>The section and the profile\<close>

text \<open>
  Lines 58-176. \<open>stopped idx\<close> is the value of the global \<^verbatim>\<open>scraperStopped\<close> when
  the loop reads it at the top of iteration \<open>idx\<close>; the keyboard listener sets it
  between two reads.
\<close>

fun experienceLoop ::
  "(nat \<Rightarrow> bool) \<Rightarrow> selectors \<Rightarrow> nat \<Rightarrow> item list \<Rightarrow> obj list \<Rightarrow> obj list" where
  "experienceLoop stopped sels idx [] experiences = experiences"
| "experienceLoop stopped sels idx (it # its) experiences =
     (if stopped idx then experiences
      else experienceLoop stopped sels (Suc idx) its (experiences @ processItem sels idx it))"

text \<open>
  Lines 49-182. Reading \<^verbatim>\<open>config.selectors\<close> stands before the \<^verbatim>\<open>try\<close>: it
  throws when \<^verbatim>\<open>config\<close> is null or undefined. Everything else is inside: a missing
  \<^verbatim>\<open>selectors\<close> object or a rejected \<^verbatim>\<open>page.$$\<close> is caught and the function
  returns the list as it is, which is still empty there.
\<close>

definition scrapeExperience ::
  "(nat \<Rightarrow> bool) \<Rightarrow> page \<Rightarrow> config_arg \<Rightarrow> js_error + obj list" where
  "scrapeExperience stopped pg cfg =
     (case cfg of
        ConfigNull \<Rightarrow> Inl selectorsOfNull
      | ConfigUndefined \<Rightarrow> Inl selectorsOfUndefined
      | ConfigObject c \<Rightarrow>
          (case config_selectors c of
             None \<Rightarrow> Inr []
           | Some sels \<Rightarrow>
               (case pg (experienceItem sels) of
                  Inl e \<Rightarrow> Inr []
                | Inr experienceItems \<Rightarrow>
                    Inr (experienceLoop stopped sels 0 experienceItems []))))"

text \<open>Lines 233-254: the outcome for one profile.\<close>

record profile_result =
  url :: jsstring
  success :: bool
  experiences :: "obj list"
  total_experiences :: nat
  error :: "string option"

definition scrapeProfile ::
  "(nat \<Rightarrow> bool) \<Rightarrow> page \<Rightarrow> jsstring \<Rightarrow> config_arg \<Rightarrow> profile_result" where
  "scrapeProfile stopped pg u cfg =
     (case scrapeExperience stopped pg cfg of
        Inr exps \<Rightarrow>
          \<lparr>url = u, success = True, experiences = exps,
           total_experiences = length exps, error = None\<rparr>
      | Inl (JsError msg) \<Rightarrow>
          \<lparr>url = u, success = False, experiences = [],
           total_experiences = 0, error = Some msg\<rparr>)"


section \<open>The TypeScript scraper\<close>

subsection \<open>Interfaces\<close>

text \<open>
  The interfaces \<^verbatim>\<open>Config\<close>, \<^verbatim>\<open>ExperienceData\<close> and \<^verbatim>\<open>EducationData\<close>.
  The keys of the two data interfaces are French column titles; the field names below
  are their ASCII spellings. Every field is a string.
\<close>

record experience_selectors =
  exp_experienceItem :: selector
  exp_jobTitle :: selector
  exp_details :: selector
  exp_description :: selector

record education_selectors =
  edu_educationItem :: selector
  edu_institution :: selector
  edu_details :: selector

record Selectors =
  experience :: experience_selectors
  education :: education_selectors

record Config =
  profiles :: "jsstring list"
  Config_selectors :: Selectors
  outputFile :: jsstring

record ExperienceData =
  Profil :: jsstring
  Titre_du_poste :: jsstring
  Entreprise_et_type_d_emploi :: jsstring
  Dates_et_duree :: jsstring
  Lieu :: jsstring
  Description :: jsstring
  Competences :: jsstring

record EducationData =
  edu_Profil :: jsstring
  Etablissement :: jsstring
  Diplome :: jsstring
  Duree :: jsstring

text \<open>
  \<^verbatim>\<open>page.goto(url)\<close> followed by queries on the page: navigation throws, or the
  page then answers \<^verbatim>\<open>page.$$\<close> as a loaded page does.
\<close>

type_synonym browser_page = "jsstring \<Rightarrow> js_error + page"

subsection \<open>The two checks on an item\<close>

text \<open>Lines 71-77.\<close>

definition hasChildrenOfSameType :: "item \<Rightarrow> selector \<Rightarrow> js_error + bool" where
  "hasChildrenOfSameType element sel =
     (case query_all element sel of
        Inl e \<Rightarrow> Inl e
      | Inr children \<Rightarrow> Inr (length children > 0))"

text \<open>Lines 88-95, the loop over \<^verbatim>\<open>parentElement\<close> inside the page.\<close>

fun parentLoop :: "(selector \<Rightarrow> js_error + bool) list \<Rightarrow> selector \<Rightarrow> js_error + bool" where
  "parentLoop [] sel = Inr False"
| "parentLoop (parent # up) sel =
     (case parent sel of
        Inl e \<Rightarrow> Inl e
      | Inr m \<Rightarrow> if m then Inr True else parentLoop up sel)"

text \<open>Lines 80-101.\<close>

definition isChildElement :: "item \<Rightarrow> selector \<Rightarrow> js_error + bool" where
  "isChildElement element sel =
     (case parent_chain element of
        Inl e \<Rightarrow> Inl e
      | Inr chain \<Rightarrow> parentLoop chain sel)"

subsection \<open>Extracting one experience item\<close>

text \<open>\<^verbatim>\<open>page.evaluate((el) => el.textContent?.trim() || "", el)\<close>.\<close>

definition textContentOrEmpty :: "elem \<Rightarrow> js_error + jsstring" where
  "textContentOrEmpty el =
     (case el of
        Inl e \<Rightarrow> Inl e
      | Inr None \<Rightarrow> Inr []
      | Inr (Some t) \<Rightarrow> Inr (js_trim t))"

text \<open>
  The selector surgery: the item selector and a space are cut out of a configured
  selector (lines 153-156 and 195-198), and the details selector is cut at
  \<^verbatim>\<open>" > "\<close> and put together again (lines 168-172). \<^verbatim>\<open>split\<close> with a
  separator that is not empty never returns an empty array, so element 0 exists.
\<close>

definition relativeSelector :: "selector \<Rightarrow> selector \<Rightarrow> selector" where
  "relativeSelector sel itemSel = js_replace sel (itemSel @ ascii '' '') []"

definition detailsQuery :: "selector \<Rightarrow> selector \<Rightarrow> selector" where
  "detailsQuery detailsSelector itemSel =
     hd (js_split (relativeSelector detailsSelector itemSel) CHILD_SEP)
       @ CHILD_SEP
       @ js_join (drop 1 (js_split detailsSelector CHILD_SEP)) CHILD_SEP"

text \<open>Lines 152-163.\<close>

definition extractJobTitle :: "experience_selectors \<Rightarrow> item \<Rightarrow> js_error + jsstring" where
  "extractJobTitle xs it =
     (case query_one it (relativeSelector (exp_jobTitle xs) (exp_experienceItem xs)) of
        Inl e \<Rightarrow> Inl e
      | Inr None \<Rightarrow> Inr []
      | Inr (Some jobTitleElement) \<Rightarrow> textContentOrEmpty jobTitleElement)"

text \<open>
  Lines 175-192: company and type, dates and duration, location. The three are read
  only when there are at least three elements.
\<close>

definition detailsFields :: "elem list \<Rightarrow> js_error + jsstring \<times> jsstring \<times> jsstring" where
  "detailsFields detailsElements =
     (if length detailsElements \<ge> 3
      then (case textContentOrEmpty (detailsElements ! 0) of
              Inl e \<Rightarrow> Inl e
            | Inr companyAndType \<Rightarrow>
                (case textContentOrEmpty (detailsElements ! 1) of
                   Inl e \<Rightarrow> Inl e
                 | Inr datesAndDuration \<Rightarrow>
                     (case textContentOrEmpty (detailsElements ! 2) of
                        Inl e \<Rightarrow> Inl e
                      | Inr location \<Rightarrow> Inr (companyAndType, datesAndDuration, location))))
      else Inr ([], [], []))"

text \<open>Lines 201-225: description and skills; the sentinel is the string \<^verbatim>\<open>"null"\<close>.\<close>

definition descriptionSkillsFields :: "elem list \<Rightarrow> js_error + jsstring \<times> jsstring" where
  "descriptionSkillsFields descriptionElements =
     (if length descriptionElements = 0
      then Inr (ascii ''null'', ascii ''null'')
      else if length descriptionElements = 1
      then (case textContentOrEmpty (descriptionElements ! 0) of
              Inl e \<Rightarrow> Inl e
            | Inr skills \<Rightarrow> Inr (ascii ''null'', skills))
      else (case textContentOrEmpty (descriptionElements ! 0) of
              Inl e \<Rightarrow> Inl e
            | Inr description \<Rightarrow>
                (case textContentOrEmpty (descriptionElements ! 1) of
                   Inl e \<Rightarrow> Inl e
                 | Inr skills \<Rightarrow> Inr (description, skills))))"

text \<open>Lines 150-237, the body of the \<^verbatim>\<open>try\<close>: the record, or the error thrown.\<close>

definition extractExperience ::
  "experience_selectors \<Rightarrow> jsstring \<Rightarrow> item \<Rightarrow> js_error + ExperienceData" where
  "extractExperience xs profileUrl it =
     (case extractJobTitle xs it of
        Inl e \<Rightarrow> Inl e
      | Inr jobTitle \<Rightarrow>
          (case query_all it (detailsQuery (exp_details xs) (exp_experienceItem xs)) of
             Inl e \<Rightarrow> Inl e
           | Inr detailsElements \<Rightarrow>
               (case detailsFields detailsElements of
                  Inl e \<Rightarrow> Inl e
                | Inr (companyAndType, datesAndDuration, location) \<Rightarrow>
                    (case query_all it
                            (relativeSelector (exp_description xs) (exp_experienceItem xs)) of
                       Inl e \<Rightarrow> Inl e
                     | Inr descriptionElements \<Rightarrow>
                         (case descriptionSkillsFields descriptionElements of
                            Inl e \<Rightarrow> Inl e
                          | Inr (description, skills) \<Rightarrow>
                              Inr \<lparr>Profil = profileUrl,
                                   Titre_du_poste = jobTitle,
                                   Entreprise_et_type_d_emploi = companyAndType,
                                   Dates_et_duree = datesAndDuration,
                                   Lieu = location,
                                   Description = description,
                                   Competences = skills\<rparr>)))))"

text \<open>
  Lines 125-243, the body of the loop for one item. The two checks stand before the
  \<^verbatim>\<open>try\<close>: an error thrown there leaves the function (\<open>Inl\<close>). An item that is
  a child or has children is skipped. An error inside the \<^verbatim>\<open>try\<close> is caught and
  logged, and nothing is pushed.
\<close>

definition processItem_ts ::
  "experience_selectors \<Rightarrow> jsstring \<Rightarrow> item \<Rightarrow> js_error + ExperienceData list" where
  "processItem_ts xs profileUrl it =
     (case isChildElement it (exp_experienceItem xs) of
        Inl e \<Rightarrow> Inl e
      | Inr isChild \<Rightarrow>
          if isChild then Inr []
          else (case hasChildrenOfSameType it (exp_experienceItem xs) of
                  Inl e \<Rightarrow> Inl e
                | Inr hasChildren \<Rightarrow>
                    if hasChildren then Inr []
                    else (case extractExperience xs profileUrl it of
                            Inl e \<Rightarrow> Inr []
                          | Inr r \<Rightarrow> Inr [r])))"

text \<open>Lines 124-244.\<close>

fun experienceLoop_ts ::
  "experience_selectors \<Rightarrow> jsstring \<Rightarrow> item list \<Rightarrow> ExperienceData list
     \<Rightarrow> js_error + ExperienceData list" where
  "experienceLoop_ts xs profileUrl [] experienceData = Inr experienceData"
| "experienceLoop_ts xs profileUrl (it # its) experienceData =
     (case processItem_ts xs profileUrl it of
        Inl e \<Rightarrow> Inl e
      | Inr rs \<Rightarrow> experienceLoop_ts xs profileUrl its (experienceData @ rs))"

text \<open>Lines 104-247: navigation and enumeration are outside every \<^verbatim>\<open>try\<close>.\<close>

definition scrapeExperience_ts ::
  "browser_page \<Rightarrow> jsstring \<Rightarrow> Config \<Rightarrow> js_error + ExperienceData list" where
  "scrapeExperience_ts pg profileUrl cfg =
     (let xs = experience (Config_selectors cfg) in
      case pg (profileUrl @ ascii ''/details/experience'') of
        Inl e \<Rightarrow> Inl e
      | Inr loaded \<Rightarrow>
          (case loaded (exp_experienceItem xs) of
             Inl e \<Rightarrow> Inl e
           | Inr experienceItems \<Rightarrow> experienceLoop_ts xs profileUrl experienceItems []))"

subsection \<open>Education\<close>

text \<open>Lines 291-299: diploma and duration, each read when its element is there.\<close>

definition educationFields :: "elem list \<Rightarrow> js_error + jsstring \<times> jsstring" where
  "educationFields detailsElements =
     (case (if length detailsElements \<ge> 1
            then textContentOrEmpty (detailsElements ! 0) else Inr []) of
        Inl e \<Rightarrow> Inl e
      | Inr diploma \<Rightarrow>
          (case (if length detailsElements \<ge> 2
                 then textContentOrEmpty (detailsElements ! 1) else Inr []) of
             Inl e \<Rightarrow> Inl e
           | Inr duration \<Rightarrow> Inr (diploma, duration)))"

text \<open>Lines 269-308, the body of the \<^verbatim>\<open>try\<close>.\<close>

definition extractEducation ::
  "education_selectors \<Rightarrow> jsstring \<Rightarrow> item \<Rightarrow> js_error + EducationData" where
  "extractEducation es profileUrl it =
     (case query_one it (relativeSelector (edu_institution es) (edu_educationItem es)) of
        Inl e \<Rightarrow> Inl e
      | Inr institutionElement \<Rightarrow>
          (case (case institutionElement of
                   None \<Rightarrow> Inr []
                 | Some el \<Rightarrow> textContentOrEmpty el) of
             Inl e \<Rightarrow> Inl e
           | Inr institution \<Rightarrow>
               (case query_all it (detailsQuery (edu_details es) (edu_educationItem es)) of
                  Inl e \<Rightarrow> Inl e
                | Inr detailsElements \<Rightarrow>
                    (case educationFields detailsElements of
                       Inl e \<Rightarrow> Inl e
                     | Inr (diploma, duration) \<Rightarrow>
                         Inr \<lparr>edu_Profil = profileUrl,
                              Etablissement = institution,
                              Diplome = diploma,
                              Duree = duration\<rparr>))))"

text \<open>Lines 266-312: every step of an item is inside its \<^verbatim>\<open>try\<close>.\<close>

fun educationLoop ::
  "education_selectors \<Rightarrow> jsstring \<Rightarrow> item list \<Rightarrow> EducationData list \<Rightarrow> EducationData list" where
  "educationLoop es profileUrl [] educationData = educationData"
| "educationLoop es profileUrl (it # its) educationData =
     (case extractEducation es profileUrl it of
        Inl e \<Rightarrow> educationLoop es profileUrl its educationData
      | Inr r \<Rightarrow> educationLoop es profileUrl its (educationData @ [r]))"

text \<open>Lines 250-315.\<close>

definition scrapeEducation ::
  "browser_page \<Rightarrow> jsstring \<Rightarrow> Config \<Rightarrow> js_error + EducationData list" where
  "scrapeEducation pg profileUrl cfg =
     (let es = education (Config_selectors cfg) in
      case pg (profileUrl @ ascii ''/details/education'') of
        Inl e \<Rightarrow> Inl e
      | Inr loaded \<Rightarrow>
          (case loaded (edu_educationItem es) of
             Inl e \<Rightarrow> Inl e
           | Inr educationItems \<Rightarrow> Inr (educationLoop es profileUrl educationItems [])))"


section \<open>Example inputs\<close>

text \<open>
  A configuration and small items for evaluating the definitions: an item answers the
  four selectors of the configuration and no other.
\<close>

definition example_selectors :: selectors where
  "example_selectors =
     \<lparr>experienceItem = ascii ''li'', role = ascii ''h3'',
      companyAndDetails = ascii ''span'', skills_and_description = ascii ''p''\<rparr>"

definition example_item :: "elem list \<Rightarrow> elem option \<Rightarrow> elem list \<Rightarrow> elem list \<Rightarrow> item" where
  "example_item children roleElem detailElems skillDescElems =
     \<lparr>query_one = (\<lambda>sel. if sel = ascii ''h3'' then Inr roleElem else Inr None),
      query_all = (\<lambda>sel. if sel = ascii ''li'' then Inr children
                          else if sel = ascii ''span'' then Inr detailElems
                          else if sel = ascii ''p'' then Inr skillDescElems
                          else Inr []),
      parent_chain = Inr []\<rparr>"

definition textElem :: "string \<Rightarrow> elem" where
  "textElem s = Inr (Some (ascii s))"

text \<open>The same for the TypeScript scraper, whose selectors repeat the item selector.\<close>

definition example_config_ts :: Config where
  "example_config_ts =
     \<lparr>profiles = [ascii ''u''],
      Config_selectors =
        \<lparr>experience =
           \<lparr>exp_experienceItem = ascii ''li'', exp_jobTitle = ascii ''li h3'',
            exp_details = ascii ''li span > b'', exp_description = ascii ''li p''\<rparr>,
         education =
           \<lparr>edu_educationItem = ascii ''li'', edu_institution = ascii ''li h3'',
            edu_details = ascii ''li span > b''\<rparr>\<rparr>,
      outputFile = ascii ''out.xlsx''\<rparr>"

definition example_item_ts ::
  "bool list \<Rightarrow> elem list \<Rightarrow> elem option \<Rightarrow> elem list \<Rightarrow> elem list \<Rightarrow> item" where
  "example_item_ts parents children title detailElems descElems =
     \<lparr>query_one = (\<lambda>sel. if sel = ascii ''h3'' then Inr title else Inr None),
      query_all = (\<lambda>sel. if sel = ascii ''li'' then Inr children
                          else if sel = ascii ''span > b'' then Inr detailElems
                          else if sel = ascii ''p'' then Inr descElems
                          else Inr []),
      parent_chain = Inr (map (\<lambda>m sel. Inr m) parents)\<rparr>"

text \<open>An item whose handle has gone stale: every query on it rejects.\<close>

definition stale_item :: item where
  "stale_item =
     \<lparr>query_one = (\<lambda>sel. Inl (JsError ''Protocol error'')),
      query_all = (\<lambda>sel. Inl (JsError ''Protocol error'')),
      parent_chain = Inr []\<rparr>"

text \<open>A loaded page with the given items, and a browser page that loads it for any URL.\<close>

definition example_page :: "item list \<Rightarrow> page" where
  "example_page its = (\<lambda>sel. if sel = ascii ''li'' then Inr its else Inr [])"

definition example_browser :: "item list \<Rightarrow> browser_page" where
  "example_browser its = (\<lambda>u. Inr (example_page its))"

definition never_stopped :: "nat \<Rightarrow> bool" where
  "never_stopped idx = False"

definition stopped_from :: "nat \<Rightarrow> nat \<Rightarrow> bool" where
  "stopped_from k idx = (k \<le> idx)"

text \<open>An item that is a single job with a title and nothing else, for each scraper.\<close>

definition example_job :: "string \<Rightarrow> item" where
  "example_job s = example_item [] (Some (textElem s)) [] []"

definition example_job_ts :: "string \<Rightarrow> item" where
  "example_job_ts s = example_item_ts [] [] (Some (textElem s)) [] []"

definition example_config :: config where
  "example_config = \<lparr>config_selectors = Some example_selectors\<rparr>"




section \<open>Lemmas\<close>

subsection \<open>Collecting fragments\<close>






subsection \<open>Splitting at a separator\<close>

lemma js_split_unfold:
  "sep \<noteq> [] \<Longrightarrow> js_split s sep =
     (case js_indexOf s sep of
        None \<Rightarrow> [s]
      | Some j \<Rightarrow> take j s # js_split (drop (j + length sep) s) sep)"
  by (subst js_split.simps) simp

lemma js_split_not_Nil: "sep \<noteq> [] \<Longrightarrow> js_split s sep \<noteq> []"
  by (subst js_split_unfold) (simp_all split: option.splits)

lemma js_split_hd:
  "sep \<noteq> [] \<Longrightarrow>
     hd (js_split s sep) = (case js_indexOf s sep of None \<Rightarrow> s | Some j \<Rightarrow> take j s)"
  by (subst js_split_unfold) (simp_all split: option.splits)

lemma js_split_length_2:
  assumes "sep \<noteq> []"
  shows "(2 \<le> length (js_split s sep)) = (js_indexOf s sep \<noteq> None)"
proof (cases "js_indexOf s sep")
  case None
  with assms show ?thesis by (subst js_split_unfold) simp_all
next
  case (Some j)
  have "js_split (drop (j + length sep) s) sep \<noteq> []"
    using assms by (rule js_split_not_Nil)
  then have "1 \<le> length (js_split (drop (j + length sep) s) sep)"
    by (cases "js_split (drop (j + length sep) s) sep") simp_all
  with Some assms show ?thesis by (subst js_split_unfold) simp_all
qed

lemma js_split_nth_1:
  assumes "sep \<noteq> []" "js_indexOf s sep = Some i"
  shows "js_split s sep ! 0 = take i s"
    and "js_split s sep ! 1 =
           (case js_indexOf (drop (i + length sep) s) sep of
              None \<Rightarrow> drop (i + length sep) s
            | Some j \<Rightarrow> take j (drop (i + length sep) s))"
proof -
  have u: "js_split s sep = take i s # js_split (drop (i + length sep) s) sep"
    using assms by (subst js_split_unfold) simp_all
  show "js_split s sep ! 0 = take i s" using u by simp
  have "js_split s sep ! 1 = hd (js_split (drop (i + length sep) s) sep)"
    using u js_split_not_Nil [OF assms(1), of "drop (i + length sep) s"]
    by (simp add: hd_conv_nth)
  then show "js_split s sep ! 1 =
           (case js_indexOf (drop (i + length sep) s) sep of
              None \<Rightarrow> drop (i + length sep) s
            | Some j \<Rightarrow> take j (drop (i + length sep) s))"
    using assms(1) by (simp add: js_split_hd)
qed

text \<open>\<open>js_indexOf\<close> finds an occurrence, the first one, and misses none.\<close>

lemma js_indexOf_occurs:
  "js_indexOf s sep = Some i \<Longrightarrow> s = take i s @ sep @ drop (i + length sep) s"
proof (induction s arbitrary: i)
  case Nil
  then show ?case by (simp split: if_splits)
next
  case (Cons c cs)
  show ?case
  proof (cases "take (length sep) (c # cs) = sep")
    case True
    with Cons.prems have "i = 0" by simp
    moreover have "c # cs = take (length sep) (c # cs) @ drop (length sep) (c # cs)"
      by (simp only: append_take_drop_id)
    ultimately show ?thesis using True by simp
  next
    case False
    with Cons.prems obtain k where k: "js_indexOf cs sep = Some k" "i = Suc k" by auto
    from Cons.IH [OF k(1)] k(2) show ?thesis by simp
  qed
qed

lemma js_indexOf_prefix: "js_indexOf (sep @ r) sep = Some 0"
proof (cases "sep @ r")
  case Nil
  then show ?thesis by simp
next
  case (Cons a list)
  have "take (length sep) (sep @ r) = sep" by simp
  then have "take (length sep) (a # list) = sep" by (simp only: Cons)
  then have "js_indexOf (a # list) sep = Some 0" by simp
  then show ?thesis by (simp only: Cons)
qed

lemma js_indexOf_first:
  "js_indexOf (l @ sep @ r) sep = Some i \<Longrightarrow> i \<le> length l"
proof (induction l arbitrary: i)
  case Nil
  then show ?case by (simp add: js_indexOf_prefix)
next
  case (Cons c l)
  then show ?case by (auto split: if_splits)
qed

lemma js_indexOf_complete: "js_indexOf (l @ sep @ r) sep \<noteq> None"
proof (induction l)
  case Nil
  then show ?case by (simp add: js_indexOf_prefix)
next
  case (Cons c l)
  then show ?case by simp
qed

lemma DELIM_not_Nil: "DELIM \<noteq> []" and DELIM_length: "length DELIM = 3"
  by (simp_all add: DELIM_def)

lemma ex_split:
  "js_split (ascii ''A'' @ DELIM @ ascii ''B'' @ DELIM @ ascii ''C'') DELIM
     = [ascii ''A'', ascii ''B'', ascii ''C'']"
  by (simp add: js_split.simps ascii_def DELIM_def)

subsection \<open>The loop of scraper.js\<close>

lemma experienceLoop_acc:
  "experienceLoop stopped sels idx its acc = acc @ experienceLoop stopped sels idx its []"
proof (induction its arbitrary: idx acc)
  case Nil
  show ?case by simp
next
  case (Cons it its)
  show ?case
  proof (cases "stopped idx")
    case True
    then show ?thesis by simp
  next
    case False
    have "experienceLoop stopped sels (Suc idx) its (acc @ processItem sels idx it)
            = (acc @ processItem sels idx it) @ experienceLoop stopped sels (Suc idx) its []"
      by (rule Cons.IH)
    moreover have "experienceLoop stopped sels (Suc idx) its (processItem sels idx it)
            = processItem sels idx it @ experienceLoop stopped sels (Suc idx) its []"
      by (rule Cons.IH)
    ultimately show ?thesis using False by simp
  qed
qed

text \<open>
  When the flag is first read as set at the top of iteration \<open>idx + k\<close>, or never
  (\<open>k\<close> is then the number of items), the loop has appended what the first \<open>k\<close>
  items gave, in their order.
\<close>

lemma experienceLoop_halts:
  assumes "k \<le> length its"
    and "\<forall>i<k. \<not> stopped (idx + i)"
    and "k < length its \<longrightarrow> stopped (idx + k)"
  shows "experienceLoop stopped sels idx its acc
           = acc @ concat (map (\<lambda>(i, it). processItem sels i it) (enumerate idx (take k its)))"
  using assms
proof (induction its arbitrary: idx k acc)
  case Nil
  then show ?case by simp
next
  case (Cons it its)
  show ?case
  proof (cases k)
    case 0
    with Cons.prems show ?thesis by simp
  next
    case (Suc k')
    from Cons.prems(2) Suc have n: "\<not> stopped idx" by force
    have 1: "k' \<le> length its" using Cons.prems(1) Suc by simp
    have 2: "\<forall>i<k'. \<not> stopped (Suc idx + i)"
    proof (intro allI impI)
      fix i assume "i < k'"
      then have "Suc i < k" using Suc by simp
      with Cons.prems(2) have "\<not> stopped (idx + Suc i)" by blast
      then show "\<not> stopped (Suc idx + i)" by simp
    qed
    have 3: "k' < length its \<longrightarrow> stopped (Suc idx + k')"
      using Cons.prems(3) Suc by simp
    from Cons.IH [OF 1 2 3, of "acc @ processItem sels idx it"] n Suc
    show ?thesis by simp
  qed
qed

lemma experienceLoop_shape:
  "\<exists>k\<le>length its.
     (\<forall>i<k. \<not> stopped (idx + i)) \<and> (k < length its \<longrightarrow> stopped (idx + k)) \<and>
     experienceLoop stopped sels idx its acc
       = acc @ concat (map (\<lambda>(i, it). processItem sels i it) (enumerate idx (take k its)))"
proof -
  have "\<exists>k\<le>length its. (\<forall>i<k. \<not> stopped (idx + i)) \<and> (k < length its \<longrightarrow> stopped (idx + k))"
  proof (induction its arbitrary: idx)
    case Nil
    show ?case by simp
  next
    case (Cons it its)
    show ?case
    proof (cases "stopped idx")
      case True
      then have "0 \<le> length (it # its) \<and> (\<forall>i<0. \<not> stopped (idx + i))
          \<and> (0 < length (it # its) \<longrightarrow> stopped (idx + 0))" by simp
      then show ?thesis by (rule exI [of _ 0])
    next
      case False
      from Cons.IH [of "Suc idx"] obtain k where k: "k \<le> length its"
          "\<forall>i<k. \<not> stopped (Suc idx + i)" "k < length its \<longrightarrow> stopped (Suc idx + k)"
        by blast
      have "\<forall>i<Suc k. \<not> stopped (idx + i)"
      proof (intro allI impI)
        fix i assume i: "i < Suc k"
        show "\<not> stopped (idx + i)"
        proof (cases i)
          case 0
          with False show ?thesis by simp
        next
          case (Suc j)
          with i k(2) have "\<not> stopped (Suc idx + j)" by simp
          with Suc show ?thesis by simp
        qed
      qed
      with k(1,3) have "Suc k \<le> length (it # its) \<and> (\<forall>i<Suc k. \<not> stopped (idx + i))
          \<and> (Suc k < length (it # its) \<longrightarrow> stopped (idx + Suc k))" by simp
      then show ?thesis by (rule exI [of _ "Suc k"])
    qed
  qed
  then obtain k where k: "k \<le> length its" "\<forall>i<k. \<not> stopped (idx + i)"
      "k < length its \<longrightarrow> stopped (idx + k)" by blast
  from experienceLoop_halts [OF k] k show ?thesis by blast
qed








subsection \<open>The loop and the checks of the TypeScript scraper\<close>


lemma experienceLoop_ts_ok:
  "\<forall>it\<in>set its. \<not> isl (processItem_ts xs u it) \<Longrightarrow>
     experienceLoop_ts xs u its acc
       = Inr (acc @ concat (map (\<lambda>it. projr (processItem_ts xs u it)) its))"
proof (induction its arbitrary: acc)
  case Nil
  show ?case by simp
next
  case (Cons it its)
  from Cons.prems obtain rs where rs: "processItem_ts xs u it = Inr rs"
    by (cases "processItem_ts xs u it") auto
  from Cons.prems have "\<forall>it\<in>set its. \<not> isl (processItem_ts xs u it)" by simp
  from Cons.IH [OF this, of "acc @ rs"] rs show ?case by simp
qed

lemma experienceLoop_ts_abort:
  assumes "\<forall>p\<in>set pre. \<not> isl (processItem_ts xs u p)"
    and "processItem_ts xs u it = Inl e"
  shows "experienceLoop_ts xs u (pre @ it # post) acc = Inl e"
  using assms(1)
proof (induction pre arbitrary: acc)
  case Nil
  with assms(2) show ?case by simp
next
  case (Cons p pre)
  from Cons.prems obtain rs where rs: "processItem_ts xs u p = Inr rs"
    by (cases "processItem_ts xs u p") auto
  from Cons.prems have "\<forall>p\<in>set pre. \<not> isl (processItem_ts xs u p)" by simp
  from Cons.IH [OF this, of "acc @ rs"] rs show ?case by simp
qed

lemma experienceLoop_ts_Inr:
  "experienceLoop_ts xs u its acc = Inr rs \<Longrightarrow>
     (\<forall>it\<in>set its. \<not> isl (processItem_ts xs u it)) \<and>
     rs = acc @ concat (map (\<lambda>it. projr (processItem_ts xs u it)) its)"
proof (induction its arbitrary: acc)
  case Nil
  then show ?case by simp
next
  case (Cons it its)
  from Cons.prems obtain r where r: "processItem_ts xs u it = Inr r"
    by (cases "processItem_ts xs u it") auto
  with Cons.prems have "experienceLoop_ts xs u its (acc @ r) = Inr rs" by simp
  from Cons.IH [OF this] r show ?case by simp
qed

lemma educationLoop_eq:
  "educationLoop es u its acc
     = acc @ concat (map (\<lambda>it. case extractEducation es u it of Inl e \<Rightarrow> [] | Inr r \<Rightarrow> [r]) its)"
  by (induction its arbitrary: acc) (auto split: sum.splits)

text \<open>What the checks and the guarded body of the TypeScript loop give for one item.\<close>

lemma processItem_ts_child:
  "isChildElement it (exp_experienceItem xs) = Inr True \<Longrightarrow> processItem_ts xs u it = Inr []"
  by (simp add: processItem_ts_def)

lemma processItem_ts_has_children:
  "isChildElement it (exp_experienceItem xs) = Inr False \<Longrightarrow>
   query_all it (exp_experienceItem xs) = Inr children \<Longrightarrow> children \<noteq> [] \<Longrightarrow>
   processItem_ts xs u it = Inr []"
  by (simp add: processItem_ts_def hasChildrenOfSameType_def)

lemma processItem_ts_caught:
  "isChildElement it (exp_experienceItem xs) = Inr False \<Longrightarrow>
   hasChildrenOfSameType it (exp_experienceItem xs) = Inr False \<Longrightarrow>
   extractExperience xs u it = Inl e \<Longrightarrow>
   processItem_ts xs u it = Inr []"
  by (simp add: processItem_ts_def)

lemma processItem_ts_check_throws:
  "isChildElement it (exp_experienceItem xs) = Inl e \<Longrightarrow> processItem_ts xs u it = Inl e"
  "isChildElement it (exp_experienceItem xs) = Inr False \<Longrightarrow>
   hasChildrenOfSameType it (exp_experienceItem xs) = Inl e \<Longrightarrow> processItem_ts xs u it = Inl e"
  by (simp_all add: processItem_ts_def)

text \<open>Evaluating the selector surgery on the example configuration.\<close>

lemma example_selectors_ts:
  "relativeSelector (ascii ''li h3'') (ascii ''li'') = ascii ''h3''"
  "relativeSelector (ascii ''li p'') (ascii ''li'') = ascii ''p''"
  "detailsQuery (ascii ''li span > b'') (ascii ''li'') = ascii ''span > b''"
  by (simp_all add: relativeSelector_def detailsQuery_def js_replace_def js_split.simps
      ascii_def CHILD_SEP_def)

lemma ascii_neq:
  "ascii ''h3'' \<noteq> ascii ''li''" "ascii ''p'' \<noteq> ascii ''li''" "ascii ''p'' \<noteq> ascii ''span > b''"
  "ascii ''span > b'' \<noteq> ascii ''li''" "ascii ''span'' \<noteq> ascii ''li''"
  "ascii ''p'' \<noteq> ascii ''span''" "ascii ''p'' \<noteq> ascii ''h3''"
  by (simp_all add: ascii_def)

lemma js_trim_examples:
  "js_trim (ascii ''A'') = ascii ''A''" "js_trim (ascii ''B'') = ascii ''B''"
  "js_trim (ascii ''C'') = ascii ''C''"
  by (simp_all add: ascii_def js_trim_def isWhiteSpace_def)

lemma example_processItem_ts:
  "processItem_ts (experience (Config_selectors example_config_ts)) u
     (example_item_ts [] [] (Some (textElem s)) [] [])
   = Inr [\<lparr>Profil = u, Titre_du_poste = js_trim (ascii s), Entreprise_et_type_d_emploi = [],
           Dates_et_duree = [], Lieu = [], Description = ascii ''null'',
           Competences = ascii ''null''\<rparr>]"
  by (simp add: processItem_ts_def isChildElement_def hasChildrenOfSameType_def
      example_config_ts_def example_item_ts_def extractExperience_def extractJobTitle_def
      example_selectors_ts ascii_neq detailsFields_def descriptionSkillsFields_def
      textContentOrEmpty_def textElem_def)

lemma stale_processItem_ts:
  "processItem_ts (experience (Config_selectors example_config_ts)) u stale_item
     = Inl (JsError ''Protocol error'')"
  by (simp add: processItem_ts_def isChildElement_def hasChildrenOfSameType_def stale_item_def)

lemma example_config_ts_item:
  "exp_experienceItem (experience (Config_selectors example_config_ts)) = ascii ''li''"
  "edu_educationItem (education (Config_selectors example_config_ts)) = ascii ''li''"
  by (simp_all add: example_config_ts_def)

subsection \<open>The sections\<close>

lemma scrapeExperience_loop:
  "config_selectors c = Some sels \<Longrightarrow> pg (experienceItem sels) = Inr items \<Longrightarrow>
     scrapeExperience stopped pg (ConfigObject c) = Inr (experienceLoop stopped sels 0 items [])"
  by (simp add: scrapeExperience_def)

lemma scrapeExperience_ts_loop:
  "pg (u @ ascii ''/details/experience'') = Inr loaded \<Longrightarrow>
   loaded (exp_experienceItem (experience (Config_selectors cfg))) = Inr items \<Longrightarrow>
     scrapeExperience_ts pg u cfg
       = experienceLoop_ts (experience (Config_selectors cfg)) u items []"
  by (simp add: scrapeExperience_ts_def Let_def)

lemma scrapeEducation_loop:
  "pg (u @ ascii ''/details/education'') = Inr loaded \<Longrightarrow>
   loaded (edu_educationItem (education (Config_selectors cfg))) = Inr items \<Longrightarrow>
     scrapeEducation pg u cfg
       = Inr (educationLoop (education (Config_selectors cfg)) u items [])"
  by (simp add: scrapeEducation_def Let_def)

text \<open>
  With a configuration object, scraper.js catches whatever fails in the section inside
  \<^verbatim>\<open>scrapeExperience\<close>: the function returns, and the profile is reported as a
  success with the records returned.
\<close>

lemma scrapeExperience_returns:
  "\<exists>rs. scrapeExperience stopped pg (ConfigObject c) = Inr rs"
  by (simp add: scrapeExperience_def split: option.splits sum.splits)

lemma scrapeProfile_reports_success:
  "scrapeExperience stopped pg cfg = Inr rs \<Longrightarrow>
     scrapeProfile stopped pg u cfg
       = \<lparr>url = u, success = True, experiences = rs, total_experiences = length rs,
          error = None\<rparr>"
  by (simp add: scrapeProfile_def)

lemma scrapeProfile_enumeration_rejected:
  "config_selectors c = Some sels \<Longrightarrow> pg (experienceItem sels) = Inl e \<Longrightarrow>
     scrapeProfile stopped pg u (ConfigObject c)
       = \<lparr>url = u, success = True, experiences = [], total_experiences = 0, error = None\<rparr>"
  by (simp add: scrapeProfile_def scrapeExperience_def)


subsection \<open>The scrapers on the example inputs\<close>

lemma example_processItem:
  "processItem example_selectors idx (example_job s)
     = [(new_experienceData idx)(''role'' \<mapsto> JStr (js_trim (ascii s)),
                                 ''description'' \<mapsto> JNull, ''skills'' \<mapsto> JNull)]"
  by (simp add: processItem_def example_job_def example_item_def example_selectors_def
      ascii_neq getRole_def getDetails_def getDescriptionSkills_def textContentTrim_def
      textElem_def assignDetails_def assignDescriptionSkills_def)

lemma example_processItem_job_ts:
  "processItem_ts (experience (Config_selectors example_config_ts)) u (example_job_ts s)
   = Inr [\<lparr>Profil = u, Titre_du_poste = js_trim (ascii s), Entreprise_et_type_d_emploi = [],
           Dates_et_duree = [], Lieu = [], Description = ascii ''null'',
           Competences = ascii ''null''\<rparr>]"
  by (simp add: example_job_ts_def example_processItem_ts)

lemma example_scrape_ts:
  "scrapeExperience_ts (example_browser [example_job_ts ''A'', example_job_ts ''C''])
     (ascii ''u'') example_config_ts
   = Inr [\<lparr>Profil = ascii ''u'', Titre_du_poste = ascii ''A'', Entreprise_et_type_d_emploi = [],
           Dates_et_duree = [], Lieu = [], Description = ascii ''null'',
           Competences = ascii ''null''\<rparr>,
          \<lparr>Profil = ascii ''u'', Titre_du_poste = ascii ''C'', Entreprise_et_type_d_emploi = [],
           Dates_et_duree = [], Lieu = [], Description = ascii ''null'',
           Competences = ascii ''null''\<rparr>]"
proof -
  let ?xs = "experience (Config_selectors example_config_ts)"
  have "experienceLoop_ts ?xs (ascii ''u'') [example_job_ts ''A'', example_job_ts ''C''] []
        = Inr [\<lparr>Profil = ascii ''u'', Titre_du_poste = ascii ''A'', Entreprise_et_type_d_emploi = [],
           Dates_et_duree = [], Lieu = [], Description = ascii ''null'',
           Competences = ascii ''null''\<rparr>,
          \<lparr>Profil = ascii ''u'', Titre_du_poste = ascii ''C'', Entreprise_et_type_d_emploi = [],
           Dates_et_duree = [], Lieu = [], Description = ascii ''null'',
           Competences = ascii ''null''\<rparr>]"
    by (simp add: example_processItem_job_ts js_trim_examples)
  then show ?thesis
    unfolding scrapeExperience_ts_def Let_def
    by (simp add: example_browser_def example_page_def example_config_ts_item)
qed

lemma example_processItem_children:
  "processItem example_selectors idx (example_item [x, y] r ds ss) = []"
  "processItem example_selectors idx (example_item [x] (Some (textElem s)) [] [])
     = [(new_experienceData idx)(''role'' \<mapsto> JStr (js_trim (ascii s)),
                                 ''description'' \<mapsto> JNull, ''skills'' \<mapsto> JNull)]"
  by (simp_all add: processItem_def example_item_def example_selectors_def
      ascii_neq getRole_def getDetails_def getDescriptionSkills_def textContentTrim_def
      textElem_def assignDetails_def assignDescriptionSkills_def)

lemma example_processItem_ts_skipped:
  "processItem_ts (experience (Config_selectors example_config_ts)) u
     (example_item_ts [True] [] t ds ss) = Inr []"
  "processItem_ts (experience (Config_selectors example_config_ts)) u
     (example_item_ts [] [x] t ds ss) = Inr []"
  by (simp_all add: processItem_ts_def isChildElement_def hasChildrenOfSameType_def
      example_config_ts_def example_item_ts_def)


lemma example_scrape_three:
  "scrapeExperience never_stopped
     (example_page [example_job ''A'', example_item [textElem ''x'', textElem ''y''] None [] [],
                    example_job ''C''])
     (ConfigObject example_config)
   = Inr [(new_experienceData 0)(''role'' \<mapsto> JStr (ascii ''A''),
                                 ''description'' \<mapsto> JNull, ''skills'' \<mapsto> JNull),
          (new_experienceData 2)(''role'' \<mapsto> JStr (ascii ''C''),
                                 ''description'' \<mapsto> JNull, ''skills'' \<mapsto> JNull)]"
proof -
  have "experienceLoop never_stopped example_selectors 0
          [example_job ''A'', example_item [textElem ''x'', textElem ''y''] None [] [],
           example_job ''C''] []
        = [(new_experienceData 0)(''role'' \<mapsto> JStr (ascii ''A''),
                                 ''description'' \<mapsto> JNull, ''skills'' \<mapsto> JNull),
          (new_experienceData 2)(''role'' \<mapsto> JStr (ascii ''C''),
                                 ''description'' \<mapsto> JNull, ''skills'' \<mapsto> JNull)]"
    by (simp add: never_stopped_def example_processItem example_processItem_children
        js_trim_examples numeral_2_eq_2)
  then show ?thesis
    by (simp add: scrapeExperience_def example_config_def example_page_def
        example_selectors_def)
qed



subsection \<open>The shape of a record of scraper.js\<close>

lemma text_keys_members:
  "''role'' \<in> text_keys" "''company'' \<in> text_keys" "''position'' \<in> text_keys"
  "''duration'' \<in> text_keys" "''location'' \<in> text_keys" "''description'' \<in> text_keys"
  "''skills'' \<in> text_keys"
  by (simp_all add: text_keys_def)

lemma text_keys_subset: "k \<in> text_keys \<Longrightarrow> k \<in> experience_keys"
  by (auto simp: text_keys_def experience_keys_def)

lemma text_keys_others: "''index'' \<notin> text_keys" "''has_children'' \<notin> text_keys"
  by (simp_all add: text_keys_def)

lemma dom_new_experienceData: "dom (new_experienceData idx) = experience_keys"
  unfolding new_experienceData_def experience_keys_def
  by (simp only: dom_fun_upd dom_empty option.distinct if_False insert_commute)

lemma shape_new: "record_shape idx (new_experienceData idx)"
proof -
  have "\<forall>k\<in>text_keys. new_experienceData idx k = Some JNull"
    by (auto simp: text_keys_def new_experienceData_def)
  then have "\<forall>k\<in>text_keys. new_experienceData idx k = Some JNull
               \<or> (\<exists>s. new_experienceData idx k = Some (JStr s))" by blast
  moreover have "new_experienceData idx ''index'' = Some (JNum idx)"
    "new_experienceData idx ''has_children'' = Some (JBool False)"
    by (simp_all add: new_experienceData_def)
  ultimately show ?thesis using dom_new_experienceData unfolding record_shape_def by blast
qed

lemma shape_upd:
  assumes "record_shape idx d" and "k \<in> text_keys" and "v = JNull \<or> (\<exists>s. v = JStr s)"
  shows "record_shape idx (d(k \<mapsto> v))"
proof -
  from assms(1) have d: "dom d = experience_keys" and i: "d ''index'' = Some (JNum idx)"
    and h: "d ''has_children'' = Some (JBool False)"
    and t: "\<forall>k\<in>text_keys. d k = Some JNull \<or> (\<exists>s. d k = Some (JStr s))"
    unfolding record_shape_def by blast+
  from assms(2) have "k \<in> experience_keys" by (rule text_keys_subset)
  with d have 1: "dom (d(k \<mapsto> v)) = experience_keys" by auto
  from assms(2) text_keys_others have "k \<noteq> ''index''" "k \<noteq> ''has_children''" by blast+
  with i h have 2: "(d(k \<mapsto> v)) ''index'' = Some (JNum idx)"
    and 3: "(d(k \<mapsto> v)) ''has_children'' = Some (JBool False)" by simp_all
  have 4: "\<forall>k'\<in>text_keys. (d(k \<mapsto> v)) k' = Some JNull \<or> (\<exists>s. (d(k \<mapsto> v)) k' = Some (JStr s))"
  proof
    fix k' assume k': "k' \<in> text_keys"
    show "(d(k \<mapsto> v)) k' = Some JNull \<or> (\<exists>s. (d(k \<mapsto> v)) k' = Some (JStr s))"
    proof (cases "k' = k")
      case True
      with assms(3) show ?thesis by auto
    next
      case False
      with t k' show ?thesis by simp
    qed
  qed
  from 1 2 3 4 show ?thesis unfolding record_shape_def by blast
qed

lemma shape_if:
  "record_shape idx a \<Longrightarrow> record_shape idx b \<Longrightarrow> record_shape idx (if c then a else b)"
  by simp

lemma shape_upd_str:
  "record_shape idx d \<Longrightarrow> k \<in> text_keys \<Longrightarrow> record_shape idx (d(k \<mapsto> JStr s))"
  by (rule shape_upd) blast+

lemma shape_upd_null:
  "record_shape idx d \<Longrightarrow> k \<in> text_keys \<Longrightarrow> record_shape idx (d(k \<mapsto> JNull))"
  by (rule shape_upd) blast+

lemma shape_getRole:
  assumes "record_shape idx d"
  shows "record_shape idx (getRole sels it d)"
proof (cases "query_one it (role sels)")
  case (Inl e)
  with assms show ?thesis by (simp add: getRole_def)
next
  case (Inr found)
  show ?thesis
  proof (cases found)
    case None
    with Inr assms show ?thesis by (simp add: getRole_def)
  next
    case (Some roleElem)
    show ?thesis
    proof (cases "textContentTrim roleElem")
      case (Inl e)
      with Inr Some assms show ?thesis by (simp add: getRole_def)
    next
      case r: (Inr roleText)
      have "record_shape idx (d(''role'' \<mapsto> JStr roleText))"
        using assms text_keys_members(1) by (rule shape_upd_str)
      with Inr Some r show ?thesis by (simp add: getRole_def)
    qed
  qed
qed

lemma shape_assignCompany:
  assumes "record_shape idx d"
  shows "record_shape idx (assignCompany c d)"
proof -
  have a: "record_shape idx (d(''company'' \<mapsto> JStr x, ''position'' \<mapsto> JStr y))" for x y
    by (rule shape_upd_str [OF shape_upd_str [OF assms text_keys_members(2)]
          text_keys_members(3)])
  have b: "record_shape idx (d(''company'' \<mapsto> JStr x, ''position'' \<mapsto> JNull))" for x
    by (rule shape_upd_null [OF shape_upd_str [OF assms text_keys_members(2)]
          text_keys_members(3)])
  show ?thesis
    unfolding assignCompany_def Let_def using a b by simp
qed

lemma shape_assignDetails:
  assumes "record_shape idx d"
  shows "record_shape idx (assignDetails fs d)"
proof -
  let ?d1 = "if length fs \<ge> 1 then assignCompany (fs ! 0) d else d"
  let ?d2 = "if length fs \<ge> 2 then ?d1(''duration'' \<mapsto> JStr (fs ! 1)) else ?d1"
  let ?d3 = "if length fs \<ge> 3 then ?d2(''location'' \<mapsto> JStr (fs ! 2)) else ?d2"
  have 1: "record_shape idx ?d1"
    using shape_assignCompany [OF assms] assms by (rule shape_if)
  have "record_shape idx (?d1(''duration'' \<mapsto> JStr (fs ! 1)))"
    using 1 text_keys_members(4) by (rule shape_upd_str)
  then have 2: "record_shape idx ?d2" using 1 by (rule shape_if)
  have "record_shape idx (?d2(''location'' \<mapsto> JStr (fs ! 2)))"
    using 2 text_keys_members(5) by (rule shape_upd_str)
  then have 3: "record_shape idx ?d3" using 2 by (rule shape_if)
  have "assignDetails fs d = ?d3" by (simp only: assignDetails_def Let_def)
  with 3 show ?thesis by (simp only:)
qed

lemma shape_getDetails:
  assumes "record_shape idx d"
  shows "record_shape idx (getDetails sels it d)"
proof (cases "query_all it (companyAndDetails sels)")
  case (Inl e)
  with assms show ?thesis by (simp add: getDetails_def)
next
  case (Inr detailElems)
  show ?thesis
  proof (cases "collectTexts detailElems []")
    case (Inl e)
    with Inr assms show ?thesis by (simp add: getDetails_def)
  next
    case f: (Inr fs)
    from Inr f have "getDetails sels it d = assignDetails fs d" by (simp add: getDetails_def)
    with shape_assignDetails [OF assms, of fs] show ?thesis by (simp only:)
  qed
qed

lemma shape_assignDescriptionSkills:
  assumes "record_shape idx d"
  shows "record_shape idx (assignDescriptionSkills fs d)"
proof -
  have a: "record_shape idx (d(''description'' \<mapsto> JNull, ''skills'' \<mapsto> JNull))"
    by (rule shape_upd_null [OF shape_upd_null [OF assms text_keys_members(6)]
          text_keys_members(7)])
  have b: "record_shape idx (d(''description'' \<mapsto> JNull, ''skills'' \<mapsto> JStr x))" for x
    by (rule shape_upd_str [OF shape_upd_null [OF assms text_keys_members(6)]
          text_keys_members(7)])
  have c: "record_shape idx (d(''description'' \<mapsto> JStr x, ''skills'' \<mapsto> JStr y))" for x y
    by (rule shape_upd_str [OF shape_upd_str [OF assms text_keys_members(6)]
          text_keys_members(7)])
  show ?thesis
    unfolding assignDescriptionSkills_def using a b c by simp
qed

lemma shape_getDescriptionSkills:
  assumes "record_shape idx d"
  shows "record_shape idx (getDescriptionSkills sels it d)"
proof (cases "query_all it (skills_and_description sels)")
  case (Inl e)
  with assms show ?thesis by (simp add: getDescriptionSkills_def)
next
  case (Inr els)
  show ?thesis
  proof (cases "collectTexts els []")
    case (Inl e)
    with Inr assms show ?thesis by (simp add: getDescriptionSkills_def)
  next
    case f: (Inr fs)
    from Inr f have "getDescriptionSkills sels it d = assignDescriptionSkills fs d"
      by (simp add: getDescriptionSkills_def)
    with shape_assignDescriptionSkills [OF assms, of fs] show ?thesis by (simp only:)
  qed
qed

lemma shape_processItem:
  assumes "r \<in> set (processItem sels idx it)"
  shows "record_shape idx r"
proof (cases "query_all it (experienceItem sels)")
  case (Inl e)
  with assms have "r = new_experienceData idx" by (simp add: processItem_def)
  with shape_new [of idx] show ?thesis by (simp only:)
next
  case (Inr children)
  with assms have "r = getDescriptionSkills sels it
                         (getDetails sels it (getRole sels it (new_experienceData idx)))"
    by (simp add: processItem_def split: if_splits)
  moreover have "record_shape idx (getDescriptionSkills sels it
                         (getDetails sels it (getRole sels it (new_experienceData idx))))"
    by (intro shape_getDescriptionSkills shape_getDetails shape_getRole shape_new)
  ultimately show ?thesis by (simp only:)
qed

lemma shape_experienceLoop:
  assumes "r \<in> set (experienceLoop stopped sels idx its [])"
  shows "\<exists>i. record_shape i r"
proof -
  from experienceLoop_shape [of its stopped idx sels "[]"] obtain k where
    "experienceLoop stopped sels idx its []
       = concat (map (\<lambda>(i, it). processItem sels i it) (enumerate idx (take k its)))"
    by auto
  with assms obtain i it where "r \<in> set (processItem sels i it)" by auto
  then have "record_shape i r" by (rule shape_processItem)
  then show ?thesis ..
qed

lemma processItem_ts_Profil:
  assumes "processItem_ts xs u it = Inr l" and "x \<in> set l"
  shows "Profil x = u"
proof -
  from assms have "extractExperience xs u it = Inr x"
    by (auto simp: processItem_ts_def split: sum.splits if_splits)
  then show ?thesis
    by (auto simp: extractExperience_def split: sum.splits prod.splits)
qed

subsection \<open>Failure isolation\<close>

text \<open>
  In scraper.js no step of an item can leave the loop: while the flag is not set, the
  items before and after any item give what they give without it.
\<close>

lemma experienceLoop_isolation:
  assumes "\<forall>i<length (pre @ it # post). \<not> stopped i"
  shows "experienceLoop stopped sels 0 (pre @ it # post) []
           = concat (map (\<lambda>(i, x). processItem sels i x) (enumerate 0 pre))
             @ processItem sels (length pre) it
             @ concat (map (\<lambda>(i, x). processItem sels i x) (enumerate (Suc (length pre)) post))"
proof -
  let ?its = "pre @ it # post"
  have 1: "length ?its \<le> length ?its" by simp
  have 2: "\<forall>i<length ?its. \<not> stopped (0 + i)" using assms by simp
  have 3: "length ?its < length ?its \<longrightarrow> stopped (0 + length ?its)" by simp
  from experienceLoop_halts [OF 1 2 3, of sels "[]"]
  show ?thesis by (simp add: enumerate_append_eq)
qed

text \<open>A failed step leaves the fields it would have set at null.\<close>

lemma getRole_failed:
  "query_one it (role sels) = Inl e \<Longrightarrow> getRole sels it d = d"
  "query_one it (role sels) = Inr (Some el) \<Longrightarrow> textContentTrim el = Inl e \<Longrightarrow>
     getRole sels it d = d"
  by (simp_all add: getRole_def)

lemma getDetails_failed:
  "query_all it (companyAndDetails sels) = Inl e \<Longrightarrow> getDetails sels it d = d"
  "query_all it (companyAndDetails sels) = Inr els \<Longrightarrow> collectTexts els [] = Inl e \<Longrightarrow>
     getDetails sels it d = d"
  by (simp_all add: getDetails_def)

lemma getDescriptionSkills_failed:
  "query_all it (skills_and_description sels) = Inl e \<Longrightarrow> getDescriptionSkills sels it d = d"
  "query_all it (skills_and_description sels) = Inr els \<Longrightarrow> collectTexts els [] = Inl e \<Longrightarrow>
     getDescriptionSkills sels it d = d"
  by (simp_all add: getDescriptionSkills_def)

lemma processItem_check_failed:
  "query_all it (experienceItem sels) = Inl e \<Longrightarrow>
     processItem sels idx it = [new_experienceData idx]"
  by (simp add: processItem_def)

text \<open>
  In the TypeScript scraper an item that gives no record, because it is skipped or
  because its guarded body threw, leaves the result of the loop as if it were not there.
\<close>

lemma experienceLoop_ts_isolation:
  "processItem_ts xs u it = Inr [] \<Longrightarrow>
     experienceLoop_ts xs u (pre @ it # post) acc = experienceLoop_ts xs u (pre @ post) acc"
  by (induction pre arbitrary: acc) (simp_all split: sum.splits)

lemma educationLoop_isolation:
  "extractEducation es u it = Inl e \<Longrightarrow>
     educationLoop es u (pre @ it # post) acc = educationLoop es u (pre @ post) acc"
  by (simp add: educationLoop_eq)


section \<open>The claims\<close>

subsection \<open>C1: description and skills by the number of fragments\<close>

text \<open>
  Claim C1, as amended. In scraper.js the fragments are decomposed as the claim says:
  none gives null for both fields, one gives null and that fragment as the skills, and
  two or more give the first fragment as the description and the last as the skills,
  whatever stands between them. In the TypeScript scraper the sentinel is the string
  \<^verbatim>\<open>"null"\<close>, and with two or more elements the skills are the text of the second
  element, whatever follows it.
\<close>

theorem description_skills_by_count:
  "assignDescriptionSkills [] d = d(''description'' \<mapsto> JNull, ''skills'' \<mapsto> JNull)
 \<and> assignDescriptionSkills [f] d = d(''description'' \<mapsto> JNull, ''skills'' \<mapsto> JStr f)
 \<and> assignDescriptionSkills (f # ms @ [l]) d
       = d(''description'' \<mapsto> JStr f, ''skills'' \<mapsto> JStr l)
 \<and> descriptionSkillsFields [] = Inr (ascii ''null'', ascii ''null'')
 \<and> descriptionSkillsFields [Inr (Some t)] = Inr (ascii ''null'', js_trim t)
 \<and> descriptionSkillsFields (Inr (Some t0) # Inr (Some t1) # rest)
       = Inr (js_trim t0, js_trim t1)"
proof -
  have a: "assignDescriptionSkills [] d = d(''description'' \<mapsto> JNull, ''skills'' \<mapsto> JNull)"
    by (simp add: assignDescriptionSkills_def)
  have b: "assignDescriptionSkills [f] d
             = d(''description'' \<mapsto> JNull, ''skills'' \<mapsto> JStr f)"
    by (simp add: assignDescriptionSkills_def)
  have "(f # ms @ [l]) ! (length (f # ms @ [l]) - 1) = l"
    by (simp add: nth_append)
  then have c: "assignDescriptionSkills (f # ms @ [l]) d
             = d(''description'' \<mapsto> JStr f, ''skills'' \<mapsto> JStr l)"
    unfolding assignDescriptionSkills_def by simp
  have e: "descriptionSkillsFields [] = Inr (ascii ''null'', ascii ''null'')"
    by (simp add: descriptionSkillsFields_def)
  have g: "descriptionSkillsFields [Inr (Some t)] = Inr (ascii ''null'', js_trim t)"
    by (simp add: descriptionSkillsFields_def textContentOrEmpty_def)
  have h: "descriptionSkillsFields (Inr (Some t0) # Inr (Some t1) # rest)
             = Inr (js_trim t0, js_trim t1)"
    by (simp add: descriptionSkillsFields_def textContentOrEmpty_def)
  from a b c e g h show ?thesis by simp
qed

text \<open>
  The claim as stated fails in the TypeScript scraper: with three elements the skills
  are the text of the second one, not of the last, and with no element both fields
  are the four code units of \<^verbatim>\<open>"null"\<close>.
\<close>

theorem description_skills_counterexample:
  "descriptionSkillsFields [textElem ''d'', textElem ''m'', textElem ''s'']
     = Inr (ascii ''d'', ascii ''m'')
   \<and> ascii ''m'' \<noteq> ascii ''s''
   \<and> descriptionSkillsFields [] = Inr ([0x6E, 0x75, 0x6C, 0x6C], [0x6E, 0x75, 0x6C, 0x6C])"
  by (simp add: descriptionSkillsFields_def textContentOrEmpty_def textElem_def ascii_def
      js_trim_def isWhiteSpace_def)

subsection \<open>C2: company and position\<close>

text \<open>
  Claim C2, as amended. When the delimiter does not occur in the fragment, the company
  is the whole fragment and the position is null. When it occurs first at \<open>i\<close>, the
  company is the text before \<open>i\<close>, trimmed, and the position is the text after that
  delimiter up to the next delimiter (or to the end when there is none), trimmed;
  what follows a second delimiter is dropped.
\<close>

theorem company_position_split:
  "(js_indexOf companyInfo DELIM = None \<longrightarrow>
      assignCompany companyInfo d
        = d(''company'' \<mapsto> JStr companyInfo, ''position'' \<mapsto> JNull))
 \<and> (\<forall>i. js_indexOf companyInfo DELIM = Some i \<longrightarrow>
      assignCompany companyInfo d
        = d(''company'' \<mapsto> JStr (js_trim (take i companyInfo)),
            ''position'' \<mapsto> JStr (js_trim
               (case js_indexOf (drop (i + 3) companyInfo) DELIM of
                  None \<Rightarrow> drop (i + 3) companyInfo
                | Some j \<Rightarrow> take j (drop (i + 3) companyInfo)))))"
proof (intro conjI impI allI)
  assume n: "js_indexOf companyInfo DELIM = None"
  have "\<not> 2 \<le> length (js_split companyInfo DELIM)"
    using n by (simp add: js_split_length_2 [OF DELIM_not_Nil])
  then show "assignCompany companyInfo d
        = d(''company'' \<mapsto> JStr companyInfo, ''position'' \<mapsto> JNull)"
    by (simp add: assignCompany_def Let_def)
next
  fix i
  assume s: "js_indexOf companyInfo DELIM = Some i"
  have l: "2 \<le> length (js_split companyInfo DELIM)"
    using s by (simp add: js_split_length_2 [OF DELIM_not_Nil])
  note p = js_split_nth_1 [OF DELIM_not_Nil s, unfolded DELIM_length]
  show "assignCompany companyInfo d
        = d(''company'' \<mapsto> JStr (js_trim (take i companyInfo)),
            ''position'' \<mapsto> JStr (js_trim
               (case js_indexOf (drop (i + 3) companyInfo) DELIM of
                  None \<Rightarrow> drop (i + 3) companyInfo
                | Some j \<Rightarrow> take j (drop (i + 3) companyInfo))))"
    using l p by (simp add: assignCompany_def Let_def)
qed

text \<open>
  The claim as stated fails: for \<^verbatim>\<open>"A \<close>U+00B7\<^verbatim>\<open> B \<close>U+00B7\<^verbatim>\<open> C"\<close> the position is
  \<^verbatim>\<open>"B"\<close>, not the whole right side.
\<close>

theorem company_position_counterexample:
  "assignCompany (ascii ''A'' @ DELIM @ ascii ''B'' @ DELIM @ ascii ''C'') (new_experienceData 0)
       ''position'' = Some (JStr (ascii ''B''))
   \<and> ascii ''B'' \<noteq> ascii ''B'' @ DELIM @ ascii ''C''"
proof -
  have "js_trim (ascii ''B'') = ascii ''B''"
    by (simp add: ascii_def js_trim_def isWhiteSpace_def)
  then show ?thesis
    by (simp add: assignCompany_def ex_split) (simp add: ascii_def)
qed

text \<open>The two examples of the specification.\<close>

theorem company_position_split_witness:
  "js_indexOf (ascii ''Acme Corp'' @ DELIM @ ascii ''Full-time'') DELIM = Some 9
   \<and> assignCompany (ascii ''Acme Corp'' @ DELIM @ ascii ''Full-time'') (new_experienceData 0)
       = (new_experienceData 0)(''company'' \<mapsto> JStr (ascii ''Acme Corp''),
                                ''position'' \<mapsto> JStr (ascii ''Full-time''))
   \<and> js_indexOf (ascii ''Acme Corp'') DELIM = None
   \<and> assignCompany (ascii ''Acme Corp'') (new_experienceData 0)
       = (new_experienceData 0)(''company'' \<mapsto> JStr (ascii ''Acme Corp''),
                                ''position'' \<mapsto> JNull)"
proof -
  have i: "js_indexOf (ascii ''Acme Corp'' @ DELIM @ ascii ''Full-time'') DELIM = Some 9"
    by (simp add: ascii_def DELIM_def)
  have n: "js_indexOf (ascii ''Acme Corp'') DELIM = None"
    by (simp add: ascii_def DELIM_def)
  have r: "drop 12 (ascii ''Acme Corp'' @ DELIM @ ascii ''Full-time'') = ascii ''Full-time''"
    "take 9 (ascii ''Acme Corp'' @ DELIM @ ascii ''Full-time'') = ascii ''Acme Corp''"
    by (simp_all add: ascii_def DELIM_def)
  have m: "js_indexOf (ascii ''Full-time'') DELIM = None"
    by (simp add: ascii_def DELIM_def)
  have t: "js_trim (ascii ''Acme Corp'') = ascii ''Acme Corp''"
    "js_trim (ascii ''Full-time'') = ascii ''Full-time''"
    by (simp_all add: ascii_def js_trim_def isWhiteSpace_def)
  from company_position_split [of "ascii ''Acme Corp'' @ DELIM @ ascii ''Full-time''" "new_experienceData 0"]
    company_position_split [of "ascii ''Acme Corp''" "new_experienceData 0"]
  show ?thesis using i n r m t by simp
qed

subsection \<open>C3: an item that contains items\<close>

text \<open>
  Claim C3. An item that contains at least one descendant matching the item selector
  is skipped. The TypeScript scraper does so (\<open>processItem_ts_has_children\<close>).
  scraper.js tests \<^verbatim>\<open>children.length > 1\<close> under the comment that speaks of children of the
  same type: an item with exactly one such descendant is not skipped, and its record
  is pushed with \<^verbatim>\<open>has_children\<close> false. The theorem evaluates both scrapers on
  such an item.
\<close>

theorem single_child_not_skipped:
  "processItem example_selectors 0 (example_item [textElem ''nested''] (Some (textElem ''A'')) [] [])
     = [(new_experienceData 0)(''role'' \<mapsto> JStr (ascii ''A''),
                               ''description'' \<mapsto> JNull, ''skills'' \<mapsto> JNull)]
   \<and> ((new_experienceData 0)(''role'' \<mapsto> JStr (ascii ''A''),
                               ''description'' \<mapsto> JNull, ''skills'' \<mapsto> JNull))
        ''has_children'' = Some (JBool False)
   \<and> processItem_ts (experience (Config_selectors example_config_ts)) (ascii ''u'')
        (example_item_ts [] [textElem ''nested''] (Some (textElem ''A'')) [] []) = Inr []"
  by (simp add: example_processItem_children example_processItem_ts_skipped js_trim_examples
      new_experienceData_def)

subsection \<open>C4: the failure of one item\<close>

text \<open>
  Claim C4. The failure of one item does not end the section. In scraper.js every step
  of an item is guarded, and the item is pushed with null in the fields of the failed
  steps (\<open>experienceLoop_isolation\<close>, \<open>getRole_failed\<close>, \<open>getDetails_failed\<close>,
  \<open>getDescriptionSkills_failed\<close>, \<open>processItem_check_failed\<close>). In the TypeScript
  scraper a failure inside the guarded body omits the item and nothing else
  (\<open>experienceLoop_ts_isolation\<close>, \<open>educationLoop_isolation\<close>), but the two checks
  of \<^verbatim>\<open>scrapeExperience\<close> stand before the \<^verbatim>\<open>try\<close>: when a check throws for one
  item the function throws, the later items are not processed and the records of the
  earlier items are not returned. The theorem evaluates the scraper on three items, the
  second of them with a stale handle.
\<close>

theorem check_failure_aborts_section:
  "scrapeExperience_ts
     (example_browser [example_job_ts ''A'',
                       stale_item,
                       example_job_ts ''C''])
     (ascii ''u'') example_config_ts
   = Inl (JsError ''Protocol error'')"
proof -
  let ?xs = "experience (Config_selectors example_config_ts)"
  have "experienceLoop_ts ?xs (ascii ''u'')
          [example_job_ts ''A'',
           stale_item,
           example_job_ts ''C''] []
        = Inl (JsError ''Protocol error'')"
    by (simp add: example_job_ts_def example_processItem_ts stale_processItem_ts)
  then show ?thesis
    unfolding scrapeExperience_ts_def Let_def
    by (simp add: example_browser_def example_page_def example_config_ts_item)
qed

subsection \<open>C5: the outcome of a profile\<close>



subsection \<open>C6: the stop flag\<close>

text \<open>
  Claim C6, as amended. In scraper.js the flag is read at the top of each iteration.
  When it is first read as set at the top of iteration \<open>k\<close>, after the \<open>k\<close> items
  with index below \<open>k\<close> have been processed, \<^verbatim>\<open>scrapeExperience\<close> returns normally
  with what those \<open>k\<close> items gave, in order, and the result is the same whatever
  items follow them. The TypeScript scraper has no stop flag: when its extraction
  returns, it returns what all the enumerated items gave.
\<close>

theorem stop_flag_partial_result:
  assumes "config_selectors c = Some sels"
    and "pg (experienceItem sels) = Inr items"
    and "k < length items"
    and "\<forall>i<k. \<not> stopped i"
    and "stopped k"
    and "pgt (u @ ascii ''/details/experience'') = Inr loaded"
    and "loaded (exp_experienceItem (experience (Config_selectors cfg))) = Inr titems"
    and "scrapeExperience_ts pgt u cfg = Inr rs"
  shows "scrapeExperience stopped pg (ConfigObject c)
           = Inr (concat (map (\<lambda>(i, it). processItem sels i it) (enumerate 0 (take k items))))
       \<and> success (scrapeProfile stopped pg target (ConfigObject c))
       \<and> error (scrapeProfile stopped pg target (ConfigObject c)) = None
       \<and> experiences (scrapeProfile stopped pg target (ConfigObject c))
           = concat (map (\<lambda>(i, it). processItem sels i it) (enumerate 0 (take k items)))
       \<and> (\<forall>others. experienceLoop stopped sels 0 (take k items @ others) []
                     = experienceLoop stopped sels 0 items [])
       \<and> rs = concat (map (\<lambda>it. projr (processItem_ts (experience (Config_selectors cfg)) u it))
                        titems)"
proof -
  let ?out = "concat (map (\<lambda>(i, it). processItem sels i it) (enumerate 0 (take k items)))"
  have s: "\<forall>i<k. \<not> stopped (0 + i)" "k < length items \<longrightarrow> stopped (0 + k)"
    using assms(4,5) by simp_all
  have l: "experienceLoop stopped sels 0 items [] = ?out"
    using experienceLoop_halts [OF less_imp_le [OF assms(3)] s, of sels "[]"] by simp
  have a: "scrapeExperience stopped pg (ConfigObject c) = Inr ?out"
    using assms(1,2) l by (simp add: scrapeExperience_def)
  have b: "\<forall>others. experienceLoop stopped sels 0 (take k items @ others) []
                     = experienceLoop stopped sels 0 items []"
  proof
    fix others
    have 1: "k \<le> length (take k items @ others)" using assms(3) by simp
    have 2: "k < length (take k items @ others) \<longrightarrow> stopped (0 + k)" using assms(5) by simp
    have "experienceLoop stopped sels 0 (take k items @ others) []
            = [] @ concat (map (\<lambda>(i, it). processItem sels i it)
                (enumerate 0 (take k (take k items @ others))))"
      by (rule experienceLoop_halts [OF 1 s(1) 2])
    also have "take k (take k items @ others) = take k items" using assms(3) by simp
    finally show "experienceLoop stopped sels 0 (take k items @ others) []
                     = experienceLoop stopped sels 0 items []"
      using l by simp
  qed
  have "experienceLoop_ts (experience (Config_selectors cfg)) u titems [] = Inr rs"
    using assms(6,7,8) by (simp add: scrapeExperience_ts_def Let_def)
  from experienceLoop_ts_Inr [OF this]
  have e: "rs = concat (map (\<lambda>it. projr (processItem_ts (experience (Config_selectors cfg)) u it))
                        titems)" by simp
  have p: "success (scrapeProfile stopped pg target (ConfigObject c))"
    "error (scrapeProfile stopped pg target (ConfigObject c)) = None"
    "experiences (scrapeProfile stopped pg target (ConfigObject c)) = ?out"
    using a by (simp_all add: scrapeProfile_def)
  from a p b e show ?thesis by blast
qed

text \<open>
  Three jobs and a flag set after the first: one record. The TypeScript scraper on two
  jobs: two records.
\<close>

theorem stop_flag_partial_result_witness:
  "scrapeExperience (stopped_from 1)
       (example_page [example_job ''A'', example_job ''B'', example_job ''C''])
       (ConfigObject example_config)
     = Inr [(new_experienceData 0)(''role'' \<mapsto> JStr (ascii ''A''),
                                   ''description'' \<mapsto> JNull, ''skills'' \<mapsto> JNull)]
   \<and> experienceLoop (stopped_from 1) example_selectors 0 [example_job ''A''] []
     = experienceLoop (stopped_from 1) example_selectors 0
         [example_job ''A'', example_job ''B'', example_job ''C''] []
   \<and> length (projr (scrapeExperience_ts
         (example_browser [example_job_ts ''A'', example_job_ts ''C''])
         (ascii ''u'') example_config_ts)) = 2"
proof -
  let ?items = "[example_job ''A'', example_job ''B'', example_job ''C'']"
  let ?titems = "[example_job_ts ''A'', example_job_ts ''C'']"
  have 1: "config_selectors example_config = Some example_selectors"
    by (simp add: example_config_def)
  have 2: "example_page ?items (experienceItem example_selectors) = Inr ?items"
    by (simp add: example_page_def example_selectors_def)
  have 3: "(1::nat) < length ?items" by simp
  have 4: "\<forall>i<(1::nat). \<not> stopped_from 1 i" by (simp add: stopped_from_def)
  have 5: "stopped_from 1 1" by (simp add: stopped_from_def)
  have 6: "example_browser ?titems (ascii ''u'' @ ascii ''/details/experience'')
             = Inr (example_page ?titems)"
    by (simp add: example_browser_def)
  have 7: "example_page ?titems
             (exp_experienceItem (experience (Config_selectors example_config_ts)))
             = Inr ?titems"
    by (simp add: example_page_def example_config_ts_item)
  note 8 = example_scrape_ts
  note t = stop_flag_partial_result [where c = example_config and sels = example_selectors
      and pg = "example_page ?items" and items = ?items and k = 1 and stopped = "stopped_from 1"
      and pgt = "example_browser ?titems" and u = "ascii ''u''"
      and loaded = "example_page ?titems" and cfg = example_config_ts and titems = ?titems,
      OF 1 2 3 4 5 6 7 8]
  from t [THEN conjunct1]
  have a: "scrapeExperience (stopped_from 1) (example_page ?items) (ConfigObject example_config)
     = Inr [(new_experienceData 0)(''role'' \<mapsto> JStr (ascii ''A''),
                                   ''description'' \<mapsto> JNull, ''skills'' \<mapsto> JNull)]"
    by (simp add: example_processItem js_trim_examples enumerate_eq_zip)
  from t [THEN conjunct2, THEN conjunct2, THEN conjunct2, THEN conjunct2, THEN conjunct1]
  have "\<forall>others. experienceLoop (stopped_from 1) example_selectors 0
                    (take 1 ?items @ others) []
     = experienceLoop (stopped_from 1) example_selectors 0 ?items []" .
  then have "experienceLoop (stopped_from 1) example_selectors 0 (take 1 ?items @ []) []
     = experienceLoop (stopped_from 1) example_selectors 0 ?items []"
    by (rule spec)
  then have b: "experienceLoop (stopped_from 1) example_selectors 0 [example_job ''A''] []
     = experienceLoop (stopped_from 1) example_selectors 0 ?items []"
    by simp
  have c: "length (projr (scrapeExperience_ts (example_browser ?titems)
         (ascii ''u'') example_config_ts)) = 2"
    by (simp add: example_scrape_ts)
  from a b c show ?thesis by simp
qed

text \<open>
  The claim as stated fails for the TypeScript scraper, which reads no flag: over two
  items it returns the records of both, where a flag set after the first item would
  leave one.
\<close>

theorem stop_flag_counterexample:
  "map Titre_du_poste (projr (scrapeExperience_ts
       (example_browser [example_job_ts ''A'', example_job_ts ''C''])
       (ascii ''u'') example_config_ts))
     = [ascii ''A'', ascii ''C'']
   \<and> \<not> isl (scrapeExperience_ts
       (example_browser [example_job_ts ''A'', example_job_ts ''C''])
       (ascii ''u'') example_config_ts)"
  by (simp add: example_scrape_ts)

subsection \<open>C7: the details by position\<close>

text \<open>
  Claim C7, as amended. In scraper.js, with two or more fragments, fragment 0 gives
  company and position, fragment 1 is the duration, fragment 2, when there is one, the
  location, and later fragments are ignored. In the TypeScript scraper the three
  fields are read only when there are at least three elements (element 0 whole as
  company and type, element 1 as the dates, element 2 as the location); with fewer
  elements the three fields are empty strings.
\<close>

theorem details_by_position:
  "assignDetails [f0, f1] d = (assignCompany f0 d)(''duration'' \<mapsto> JStr f1)
 \<and> assignDetails (f0 # f1 # f2 # rest) d
       = (assignCompany f0 d)(''duration'' \<mapsto> JStr f1, ''location'' \<mapsto> JStr f2)
 \<and> detailsFields (Inr (Some t0) # Inr (Some t1) # Inr (Some t2) # els)
       = Inr (js_trim t0, js_trim t1, js_trim t2)
 \<and> detailsFields [] = Inr ([], [], [])
 \<and> detailsFields [e0] = Inr ([], [], [])
 \<and> detailsFields [e0, e1] = Inr ([], [], [])"
proof -
  have a: "assignDetails [f0, f1] d = (assignCompany f0 d)(''duration'' \<mapsto> JStr f1)"
    by (simp add: assignDetails_def)
  have b: "assignDetails (f0 # f1 # f2 # rest) d
       = (assignCompany f0 d)(''duration'' \<mapsto> JStr f1, ''location'' \<mapsto> JStr f2)"
    by (simp add: assignDetails_def)
  have c: "detailsFields (Inr (Some t0) # Inr (Some t1) # Inr (Some t2) # els)
       = Inr (js_trim t0, js_trim t1, js_trim t2)"
    by (simp add: detailsFields_def textContentOrEmpty_def)
  have e: "detailsFields [] = Inr ([], [], [])" "detailsFields [e0] = Inr ([], [], [])"
    "detailsFields [e0, e1] = Inr ([], [], [])"
    by (simp_all add: detailsFields_def)
  from a b c e show ?thesis by simp
qed

text \<open>
  The claim as stated fails in the TypeScript scraper: two elements give neither the
  company nor the dates.
\<close>

theorem details_counterexample:
  "detailsFields [textElem ''Acme'', textElem ''2020''] = Inr ([], [], [])
   \<and> ascii ''Acme'' \<noteq> [] \<and> ascii ''2020'' \<noteq> []"
  by (simp add: detailsFields_def ascii_def)

subsection \<open>C8: document order\<close>



subsection \<open>C9: every key of every record\<close>

text \<open>
  Claim C9. Every record that scraper.js returns has exactly the nine keys of the
  object it was created as; its index is a number, \<^verbatim>\<open>has_children\<close> is false, and
  each of the other seven values is a text or null. In the TypeScript scraper a record
  is a value of an interface whose fields are all required strings and is built by one
  object literal; the profile is always the profile given, and a value that is not
  found is the empty string, or the string \<^verbatim>\<open>"null"\<close> for description and skills.
\<close>

theorem records_have_all_keys:
  "(scrapeExperience stopped pg cfg = Inr rs \<longrightarrow> r \<in> set rs \<longrightarrow>
      dom r = experience_keys
      \<and> (\<exists>idx. r ''index'' = Some (JNum idx))
      \<and> r ''has_children'' = Some (JBool False)
      \<and> (\<forall>k\<in>text_keys. r k = Some JNull \<or> (\<exists>s. r k = Some (JStr s))))
 \<and> (scrapeExperience_ts pgt u tcfg = Inr xrs \<longrightarrow> x \<in> set xrs \<longrightarrow> Profil x = u)
 \<and> (query_one it (relativeSelector (exp_jobTitle xs) (exp_experienceItem xs)) = Inr None \<longrightarrow>
      extractJobTitle xs it = Inr [])
 \<and> textContentOrEmpty (Inr None) = Inr []
 \<and> (length els < 3 \<longrightarrow> detailsFields els = Inr ([], [], []))
 \<and> descriptionSkillsFields [] = Inr (ascii ''null'', ascii ''null'')
 \<and> educationFields [] = Inr ([], [])"
proof -
  have a: "dom r = experience_keys
      \<and> (\<exists>idx. r ''index'' = Some (JNum idx))
      \<and> r ''has_children'' = Some (JBool False)
      \<and> (\<forall>k\<in>text_keys. r k = Some JNull \<or> (\<exists>s. r k = Some (JStr s)))"
    if s: "scrapeExperience stopped pg cfg = Inr rs" and r: "r \<in> set rs"
  proof -
    from s r have "\<exists>sels items. r \<in> set (experienceLoop stopped sels 0 items [])"
      by (auto simp: scrapeExperience_def split: config_arg.splits option.splits sum.splits)
    then obtain i where "record_shape i r" using shape_experienceLoop by blast
    then show ?thesis unfolding record_shape_def by blast
  qed
  have b: "Profil x = u" if s: "scrapeExperience_ts pgt u tcfg = Inr xrs" and x: "x \<in> set xrs"
  proof -
    from s obtain items where
      l: "experienceLoop_ts (experience (Config_selectors tcfg)) u items [] = Inr xrs"
      by (auto simp: scrapeExperience_ts_def Let_def split: sum.splits)
    from experienceLoop_ts_Inr [OF l] x obtain it where
      it: "it \<in> set items" "\<not> isl (processItem_ts (experience (Config_selectors tcfg)) u it)"
        "x \<in> set (projr (processItem_ts (experience (Config_selectors tcfg)) u it))"
      by auto
    from it(2) obtain l' where
      "processItem_ts (experience (Config_selectors tcfg)) u it = Inr l'"
      by (cases "processItem_ts (experience (Config_selectors tcfg)) u it") auto
    with it(3) show ?thesis using processItem_ts_Profil by fastforce
  qed
  have c: "extractJobTitle xs it = Inr []"
    if "query_one it (relativeSelector (exp_jobTitle xs) (exp_experienceItem xs)) = Inr None"
    using that by (simp add: extractJobTitle_def)
  have e: "textContentOrEmpty (Inr None) = Inr []"
    by (simp add: textContentOrEmpty_def)
  have f: "detailsFields els = Inr ([], [], [])" if "length els < 3"
    using that by (simp add: detailsFields_def)
  have g: "descriptionSkillsFields [] = Inr (ascii ''null'', ascii ''null'')"
    by (simp add: descriptionSkillsFields_def)
  have h: "educationFields [] = Inr ([], [])"
    by (simp add: educationFields_def)
  from a b c e f g h show ?thesis by blast
qed

text \<open>
  The second record of the three-item example, and a two-element details sequence.
\<close>

theorem records_have_all_keys_witness:
  "dom ((new_experienceData 2)(''role'' \<mapsto> JStr (ascii ''C''),
                               ''description'' \<mapsto> JNull, ''skills'' \<mapsto> JNull))
     = experience_keys
   \<and> ((new_experienceData 2)(''role'' \<mapsto> JStr (ascii ''C''),
                               ''description'' \<mapsto> JNull, ''skills'' \<mapsto> JNull)) ''company''
     = Some JNull
   \<and> detailsFields [textElem ''Acme'', textElem ''2020''] = Inr ([], [], [])"
proof -
  let ?r = "(new_experienceData 2)(''role'' \<mapsto> JStr (ascii ''C''),
                               ''description'' \<mapsto> JNull, ''skills'' \<mapsto> JNull)"
  let ?rs = "[(new_experienceData 0)(''role'' \<mapsto> JStr (ascii ''A''),
                                 ''description'' \<mapsto> JNull, ''skills'' \<mapsto> JNull), ?r]"
  note t = records_have_all_keys [where stopped = never_stopped
      and pg = "example_page [example_job ''A'',
                   example_item [textElem ''x'', textElem ''y''] None [] [], example_job ''C'']"
      and cfg = "ConfigObject example_config" and rs = ?rs and r = ?r
      and els = "[textElem ''Acme'', textElem ''2020'']"]
  have m: "?r \<in> set ?rs" by simp
  from t [THEN conjunct1] example_scrape_three m have a: "dom ?r = experience_keys" by blast
  have b: "?r ''company'' = Some JNull" by (simp add: new_experienceData_def)
  have "length [textElem ''Acme'', textElem ''2020''] < 3" by simp
  with t have c: "detailsFields [textElem ''Acme'', textElem ''2020''] = Inr ([], [], [])"
    by blast
  from a b c show ?thesis by blast
qed

subsection \<open>C10: only non-empty fragments are decomposed\<close>



end
